theory Spec2Isabelle
  imports Main "HOL-Library.Sublist"
begin

section \<open>Record/Status Catalog\<close>

text \<open>
  The catalog module exports two array literals of objects with the keys \<open>name\<close> and
  \<open>uid\<close>. An object literal of that shape is a record, an array literal is a list
  (the order of the source is kept).
\<close>

record entry =
  name :: string
  uid :: string

text \<open>
  The JSDoc block at the head of the module documents the shape \<open>AnswerSumRequest\<close>:
  one \<open>@property\<close> line per field, each with a type and a field name. The block is
  kept as the list of these lines, in the order they are written.
\<close>

datatype js_type = TString | TNumber | TNumberArray

definition AnswerSumRequest :: "(js_type \<times> string) list" where
  "AnswerSumRequest =
    [(TString, ''patientName''),
     (TString, ''patient_id''),
     (TString, ''gender''),
     (TNumber, ''age''),
     (TString, ''birth_date''),
     (TString, ''text_filler_name''),
     (TString, ''diagnosisDate''),
     (TString, ''pORt''),
     (TString, ''kORs''),
     (TNumberArray, ''answers''),
     (TString, ''status''),
     (TString, ''avatar'')]"

definition declared_fields :: "string list" where
  "declared_fields = map snd AnswerSumRequest"

definition columns :: "entry list" where
  "columns =
    [\<lparr>name = ''PATIENT NAME'', uid = ''patientName''\<rparr>,
     \<lparr>name = ''DIAGNOSIS DATE'', uid = ''diagnosisDate''\<rparr>,
     \<lparr>name = ''STATUS'', uid = ''status''\<rparr>,
     \<lparr>name = ''ACTIONS'', uid = ''actions''\<rparr>]"

definition statusOptions :: "entry list" where
  "statusOptions =
    [\<lparr>name = ''COMPLETED'', uid = ''completed''\<rparr>,
     \<lparr>name = ''IN PROGRESS'', uid = ''in_progress''\<rparr>,
     \<lparr>name = ''PENDING'', uid = ''pending''\<rparr>,
     \<lparr>name = ''CANCELLED'', uid = ''cancelled''\<rparr>]"


section \<open>User Session Panel: the render\<close>

text \<open>
  The values the panel reads from a user object are JavaScript values: a string, or
  \<open>undefined\<close> or \<open>null\<close> when the field is not available.
\<close>

datatype js_value = Undefined | Null | Str string

text \<open>JavaScript truthiness on these values: only a non-empty string is truthy.\<close>

fun truthy :: "js_value \<Rightarrow> bool" where
  "truthy Undefined = False"
| "truthy Null = False"
| "truthy (Str s) = (s \<noteq> [])"

text \<open>The operator \<open>a || b\<close>: the left operand when it is truthy, else the right one.\<close>

definition js_or :: "js_value \<Rightarrow> js_value \<Rightarrow> js_value" where
  "js_or a b = (if truthy a then a else b)"

record auth_user =
  email :: js_value
  displayName :: js_value

text \<open>
  What \<open>useAuth()\<close> returns: the current user, or no user (\<open>None\<close>: the value is
  \<open>null\<close>, which the conditional \<open>user ? ... : ...\<close> takes as false; an object is
  always truthy), and the loading flag.
\<close>

record auth_state =
  user :: "auth_user option"
  loading :: bool

text \<open>
  The render output is a tree of elements. An element has a tag (a host tag such as
  \<open>div\<close>, or the name of a component that is imported and not expanded here), its
  props in source order, and its children. A prop is a string literal, a number, or a
  reference to the handler defined in the component.
\<close>

datatype handler = HandleSignOut

datatype prop_value = PString string | PNumber int | PHandler handler

datatype vnode =
    Text string
  | Element string "(string \<times> prop_value) list" "vnode list"

text \<open>
  An expression container \<open>{v}\<close> in child position: \<open>undefined\<close> and \<open>null\<close> render
  nothing, a string renders as a text node.
\<close>

fun child :: "js_value \<Rightarrow> vnode list" where
  "child Undefined = []"
| "child Null = []"
| "child (Str s) = [Text s]"

text \<open>
  The JSX of the component, piece by piece. Whitespace between children that contains
  a line break is dropped, as are comment containers \<open>{/* ... */}\<close>; a blank that
  stands between two children on one line is a text child \<open>" "\<close>. That is the case
  after \<open></strong>\<close> in the two labelled lines, and after the closing tag of the
  display-name paragraph, where a comment container follows on the same line.
\<close>

definition header_section :: vnode where
  "header_section =
    Element ''div''
      [(''className'', PString ''flex justify-between items-center w-full px-4 sm:px-12 lg:px-12 py-4 bg-card-bg shadow-lg'')]
      [Element ''h3''
         [(''className'', PString ''text-5xl sm:text-6xl font-island-moments text-primary-color font-semibold'')]
         [Text ''Diascore''],
       Element ''div'' [(''className'', PString ''flex gap-4'')]
         [Element ''button'' []
            [Element ''ProfileButton''
               [(''fill'', PString ''currentColor''),
                (''size'', PNumber 24),
                (''className'', PString ''transition-all duration-300 ease-in-out transform hover:scale-110 hover:text-primary-color'')]
               []]]]"

definition user_details :: "auth_user \<Rightarrow> vnode" where
  "user_details u =
    Element ''div'' [(''className'', PString ''text-4xl'')]
      [Element ''p'' [] [Text ''You are successfully logged in as:''],
       Element ''p'' [] ([Element ''strong'' [] [Text ''Email:''], Text '' ''] @ child (email u)),
       Element ''p'' []
         ([Element ''strong'' [] [Text ''Display Name:''], Text '' '']
          @ child (js_or (displayName u) (Str ''N/A''))),
       Text '' '']"

definition log_out_button :: vnode where
  "log_out_button =
    Element ''GreenCoverButton''
      [(''text'', PString ''Log Out''),
       (''defaultColor'', PString ''black''),
       (''onClick'', PHandler HandleSignOut)]
      []"

definition UserPage :: "auth_state \<Rightarrow> vnode" where
  "UserPage s =
    (if loading s then Element ''div'' [] [Text ''Loading user data...'']
     else
       Element ''div''
         [(''className'', PString ''flex flex-col items-start w-screen bg-gradient-bg text-text-light min-h-screen'')]
         [header_section,
          Element ''div'' [(''className'', PString ''mt-20 text-left mx-auto'')]
            [(case user s of
                Some u \<Rightarrow> user_details u
              | None \<Rightarrow> Element ''p'' [] [Text ''Loading user data...'']),
             Element ''div'' [(''className'', PString ''flex gap-4 mt-40 mx-44'')]
               [log_out_button]]])"

subsection \<open>Observations on a render output\<close>

text \<open>The children of a node, and the children of the body (the second child of the root).\<close>

fun children :: "vnode \<Rightarrow> vnode list" where
  "children (Text s) = []"
| "children (Element t ps cs) = cs"

definition body :: "vnode \<Rightarrow> vnode list" where
  "body v = (case children v of [h, b] \<Rightarrow> children b | _ \<Rightarrow> [])"

text \<open>All nodes of a tree, the text nodes in document order, and the handlers bound in it.\<close>

fun subnodes :: "vnode \<Rightarrow> vnode list" where
  "subnodes (Text s) = [Text s]"
| "subnodes (Element t ps cs) = Element t ps cs # concat (map subnodes cs)"

fun texts :: "vnode \<Rightarrow> string list" where
  "texts (Text s) = [s]"
| "texts (Element t ps cs) = concat (map texts cs)"

fun handler_of :: "string \<times> prop_value \<Rightarrow> handler list" where
  "handler_of (k, PHandler h) = [h]"
| "handler_of (k, PString s) = []"
| "handler_of (k, PNumber n) = []"

fun handlers :: "vnode \<Rightarrow> handler list" where
  "handlers (Text s) = []"
| "handlers (Element t ps cs) = concat (map handler_of ps) @ concat (map handlers cs)"

text \<open>
  The text a reader sees is the concatenation of the text nodes; a render output
  includes a text when the text occurs in it as a contiguous piece.
\<close>

definition textContent :: "vnode \<Rightarrow> string" where
  "textContent v = concat (texts v)"

definition includes_text :: "vnode \<Rightarrow> string \<Rightarrow> bool" where
  "includes_text v s = sublist s (textContent v)"


text \<open>The text that a value in child position contributes.\<close>

fun shown :: "js_value \<Rightarrow> string" where
  "shown Undefined = []"
| "shown Null = []"
| "shown (Str s) = s"

text \<open>A labelled line of the user details: \<open><p><strong>label</strong> value</p>\<close>.\<close>

definition labelled_line :: "string \<Rightarrow> string \<Rightarrow> vnode" where
  "labelled_line l v = Element ''p'' [] [Element ''strong'' [] [Text l], Text '' '', Text v]"


section \<open>User Session Panel: the sign-out action\<close>

text \<open>
  \<open>handleSignOut\<close> is an async function with one \<open>await\<close>. Its effects are calls to
  three collaborators: \<open>signOut(auth)\<close> of the identity provider, \<open>navigate\<close> of the
  router, and \<open>console.error\<close>. The calls are recorded, in the order they happen, in a
  trace. What the collaborators answer is not decided by this code, so it is a
  parameter: the promise of \<open>signOut\<close> is fulfilled, is rejected with an error (a
  synchronous throw of \<open>signOut\<close> inside the \<open>try\<close> block takes the same path), or
  never settles; \<open>navigate\<close> returns or throws.
\<close>

datatype error = Error string

datatype auth_handle = Auth

datatype outcome = Returns | Throws error | Pends

record env =
  signOut_result :: outcome
  navigate_throws :: "error option"

datatype event =
    SignOutCalled auth_handle
  | SignOutResolved
  | SignOutRejected error
  | NavigateCalled string
  | ConsoleErrorCalled string error

text \<open>
  The world the handler runs in: the session owned by the auth collaborator, which the
  panel renders and for which the handler has no setter, and the trace.
\<close>

record world =
  session :: auth_state
  trace :: "event list"

definition emit :: "event \<Rightarrow> world \<Rightarrow> world" where
  "emit e w = w\<lparr>trace := trace w @ [e]\<rparr>"

text \<open>\<open>await signOut(a)\<close>: the call, then the settlement of its promise, if any.\<close>

definition await_signOut :: "env \<Rightarrow> auth_handle \<Rightarrow> world \<Rightarrow> outcome \<times> world" where
  "await_signOut en a w =
    (case signOut_result en of
       Returns \<Rightarrow> (Returns, emit SignOutResolved (emit (SignOutCalled a) w))
     | Throws e \<Rightarrow> (Throws e, emit (SignOutRejected e) (emit (SignOutCalled a) w))
     | Pends \<Rightarrow> (Pends, emit (SignOutCalled a) w))"

definition navigate :: "env \<Rightarrow> string \<Rightarrow> world \<Rightarrow> outcome \<times> world" where
  "navigate en path w =
    (case navigate_throws en of
       None \<Rightarrow> (Returns, emit (NavigateCalled path) w)
     | Some e \<Rightarrow> (Throws e, emit (NavigateCalled path) w))"

definition console_error :: "string \<Rightarrow> error \<Rightarrow> world \<Rightarrow> world" where
  "console_error msg e w = emit (ConsoleErrorCalled msg e) w"

text \<open>The body of the \<open>try\<close> block: the second statement runs only when the first returned.\<close>

definition try_block :: "env \<Rightarrow> world \<Rightarrow> outcome \<times> world" where
  "try_block en w =
    (case await_signOut en Auth w of
       (Returns, w1) \<Rightarrow> navigate en ''/home'' w1
     | (Throws e, w1) \<Rightarrow> (Throws e, w1)
     | (Pends, w1) \<Rightarrow> (Pends, w1))"

text \<open>
  The handler: an error thrown in the \<open>try\<close> block is caught and logged, and the
  function returns. The outcome is that of the promise the async function returns:
  \<open>Returns\<close> when it is fulfilled, \<open>Throws\<close> when it is rejected (an error that
  leaves the handler), \<open>Pends\<close> when the awaited promise never settles.
\<close>

definition handleSignOut :: "env \<Rightarrow> world \<Rightarrow> outcome \<times> world" where
  "handleSignOut en w =
    (case try_block en w of
       (Throws e, w1) \<Rightarrow> (Returns, console_error ''Error signing out:'' e w1)
     | (Returns, w1) \<Rightarrow> (Returns, w1)
     | (Pends, w1) \<Rightarrow> (Pends, w1))"

subsection \<open>Observations on a trace\<close>

fun navigation_of :: "event \<Rightarrow> string list" where
  "navigation_of (NavigateCalled p) = [p]"
| "navigation_of (SignOutCalled a) = []"
| "navigation_of SignOutResolved = []"
| "navigation_of (SignOutRejected e) = []"
| "navigation_of (ConsoleErrorCalled m e) = []"

fun log_of :: "event \<Rightarrow> (string \<times> error) list" where
  "log_of (ConsoleErrorCalled m e) = [(m, e)]"
| "log_of (SignOutCalled a) = []"
| "log_of SignOutResolved = []"
| "log_of (SignOutRejected e) = []"
| "log_of (NavigateCalled p) = []"

text \<open>The arguments of the navigation calls, and the diagnostic log entries, of a trace.\<close>

definition navigation_calls :: "event list \<Rightarrow> string list" where
  "navigation_calls t = concat (map navigation_of t)"

definition log_entries :: "event list \<Rightarrow> (string \<times> error) list" where
  "log_entries t = concat (map log_of t)"

text \<open>The events of one invocation of the handler: what it appends to the trace.\<close>

definition invocation :: "env \<Rightarrow> world \<Rightarrow> event list" where
  "invocation en w = drop (length (trace w)) (trace (snd (handleSignOut en w)))"


section \<open>Properties of the catalog\<close>

lemma uids_statusOptions:
  "map uid statusOptions = [''completed'', ''in_progress'', ''pending'', ''cancelled'']"
  by (simp add: statusOptions_def)

lemma uids_columns:
  "map uid columns = [''patientName'', ''diagnosisDate'', ''status'', ''actions'']"
  by (simp add: columns_def)

lemma names_columns:
  "map name columns = [''PATIENT NAME'', ''DIAGNOSIS DATE'', ''STATUS'', ''ACTIONS'']"
  by (simp add: columns_def)

lemma declared_fields_eq:
  "declared_fields =
    [''patientName'', ''patient_id'', ''gender'', ''age'', ''birth_date'',
     ''text_filler_name'', ''diagnosisDate'', ''pORt'', ''kORs'', ''answers'',
     ''status'', ''avatar'']"
  by (simp add: declared_fields_def AnswerSumRequest_def)

text \<open>
  C5. \<open>statusOptions\<close> has exactly four entries, their \<open>uid\<close> values are pairwise
  distinct, and the set of these values is
  \<open>{completed, in_progress, pending, cancelled}\<close>.
\<close>

theorem statusOptions_four_distinct_uids:
  "length statusOptions = 4
   \<and> distinct (map uid statusOptions)
   \<and> set (map uid statusOptions) = {''completed'', ''in_progress'', ''pending'', ''cancelled''}"
proof -
  have "length (map uid statusOptions) = 4"
    by (simp only: uids_statusOptions) simp
  then have len: "length statusOptions = 4" by simp
  have dis: "distinct (map uid statusOptions)"
    by (simp only: uids_statusOptions) simp
  have st: "set (map uid statusOptions)
      = {''completed'', ''in_progress'', ''pending'', ''cancelled''}"
    by (simp only: uids_statusOptions) simp
  from len dis st show ?thesis by blast
qed

text \<open>
  C6. \<open>columns\<close> is an ordered sequence of exactly four entries, whose \<open>uid\<close> values
  are, in order, patientName, diagnosisDate, status and actions (so the set of uids is
  these four), and the \<open>name\<close> of every entry is a non-empty string.
\<close>

theorem columns_four_named_entries:
  "length columns = 4
   \<and> map uid columns = [''patientName'', ''diagnosisDate'', ''status'', ''actions'']
   \<and> set (map uid columns) = {''patientName'', ''diagnosisDate'', ''status'', ''actions''}
   \<and> list_all (\<lambda>c. name c \<noteq> []) columns"
proof -
  have "length (map uid columns) = 4"
    by (simp only: uids_columns) simp
  then have len: "length columns = 4" by simp
  have st: "set (map uid columns)
      = {''patientName'', ''diagnosisDate'', ''status'', ''actions''}"
    by (simp only: uids_columns) simp
  have "list_all (\<lambda>n. n \<noteq> []) (map name columns)"
    by (simp only: names_columns) simp
  then have ne: "list_all (\<lambda>c. name c \<noteq> []) columns"
    by (simp add: list_all_iff)
  from len uids_columns st ne show ?thesis by blast
qed

text \<open>
  C8. The \<open>uid\<close> of every entry of \<open>columns\<close> is either the sentinel \<open>actions\<close> or
  the name of a field declared in the documented \<open>AnswerSumRequest\<close> shape:
  patientName, diagnosisDate and status are declared fields, and \<open>actions\<close> is not.
\<close>

theorem columns_uid_field_or_actions:
  "(\<forall>c \<in> set columns. uid c = ''actions'' \<or> uid c \<in> set declared_fields)
   \<and> ''patientName'' \<in> set declared_fields
   \<and> ''diagnosisDate'' \<in> set declared_fields
   \<and> ''status'' \<in> set declared_fields
   \<and> ''actions'' \<notin> set declared_fields"
proof -
  have mem: "''patientName'' \<in> set declared_fields"
    "''diagnosisDate'' \<in> set declared_fields"
    "''status'' \<in> set declared_fields"
    by (simp_all only: declared_fields_eq) simp_all
  have non: "''actions'' \<notin> set declared_fields"
    by (simp only: declared_fields_eq) simp
  have "\<forall>u \<in> set (map uid columns). u = ''actions'' \<or> u \<in> set declared_fields"
    using mem by (simp only: uids_columns) simp
  then have "\<forall>c \<in> set columns. uid c = ''actions'' \<or> uid c \<in> set declared_fields"
    by simp
  with mem non show ?thesis by blast
qed

theorem columns_uid_field_or_actions_witness:
  "\<lparr>name = ''STATUS'', uid = ''status''\<rparr> \<in> set columns
   \<and> ''status'' \<in> set declared_fields
   \<and> \<lparr>name = ''ACTIONS'', uid = ''actions''\<rparr> \<in> set columns
   \<and> ''actions'' \<notin> set declared_fields"
proof -
  have a: "\<lparr>name = ''STATUS'', uid = ''status''\<rparr> \<in> set columns"
    by (simp add: columns_def)
  have b: "\<lparr>name = ''ACTIONS'', uid = ''actions''\<rparr> \<in> set columns"
    by (simp add: columns_def)
  from columns_uid_field_or_actions a
  have "uid \<lparr>name = ''STATUS'', uid = ''status''\<rparr> = ''actions''
        \<or> uid \<lparr>name = ''STATUS'', uid = ''status''\<rparr> \<in> set declared_fields"
    by blast
  then have c: "''status'' \<in> set declared_fields" by simp
  from columns_uid_field_or_actions have d: "''actions'' \<notin> set declared_fields"
    by blast
  from a b c d show ?thesis by blast
qed


section \<open>Properties of the render\<close>

lemma UserPage_loading:
  "loading s \<Longrightarrow> UserPage s = Element ''div'' [] [Text ''Loading user data...'']"
  by (simp add: UserPage_def)

lemma body_UserPage:
  "\<not> loading s \<Longrightarrow>
   body (UserPage s) =
     [(case user s of
         Some u \<Rightarrow> user_details u
       | None \<Rightarrow> Element ''p'' [] [Text ''Loading user data...'']),
      Element ''div'' [(''className'', PString ''flex gap-4 mt-40 mx-44'')] [log_out_button]]"
  by (simp add: UserPage_def body_def)

lemma subnodes_header_section:
  "labelled_line l v \<notin> set (subnodes header_section)"
  by (simp add: header_section_def labelled_line_def)

lemma subnodes_log_out_button:
  "subnodes log_out_button = [log_out_button]"
  by (simp add: log_out_button_def)

lemma display_line_in_details:
  "labelled_line ''Display Name:'' v \<in> set (subnodes (user_details u))
   \<longleftrightarrow> js_or (displayName u) (Str ''N/A'') = Str v"
  by (cases "js_or (displayName u) (Str ''N/A'')"; cases "email u")
     (auto simp add: user_details_def labelled_line_def)

lemma display_line_in_page:
  assumes "\<not> loading s" and "user s = Some u"
  shows "labelled_line ''Display Name:'' v \<in> set (subnodes (UserPage s))
   \<longleftrightarrow> js_or (displayName u) (Str ''N/A'') = Str v"
proof -
  have "set (subnodes (UserPage s)) =
      {UserPage s, hd (tl (children (UserPage s))),
       Element ''div'' [(''className'', PString ''flex gap-4 mt-40 mx-44'')] [log_out_button],
       log_out_button}
      \<union> set (subnodes header_section) \<union> set (subnodes (user_details u))"
    using assms by (auto simp add: UserPage_def subnodes_log_out_button)
  moreover have "labelled_line ''Display Name:'' v \<noteq> UserPage s"
    using assms by (simp add: UserPage_def labelled_line_def)
  moreover have "labelled_line ''Display Name:'' v \<noteq> hd (tl (children (UserPage s)))"
    using assms by (simp add: UserPage_def labelled_line_def)
  moreover have "labelled_line ''Display Name:'' v \<noteq> log_out_button"
    by (simp add: log_out_button_def labelled_line_def)
  moreover have "labelled_line ''Display Name:'' v \<noteq>
      Element ''div'' [(''className'', PString ''flex gap-4 mt-40 mx-44'')] [log_out_button]"
    by (simp add: labelled_line_def)
  ultimately show ?thesis
    using subnodes_header_section [of "''Display Name:''" v] display_line_in_details [of v u]
    by simp
qed


lemma textContent_UserPage:
  assumes "\<not> loading s" and "user s = Some u"
  shows "textContent (UserPage s) =
     ''DiascoreYou are successfully logged in as:Email: '' @ shown (email u)
     @ ''Display Name: '' @ shown (js_or (displayName u) (Str ''N/A'')) @ '' ''"
  using assms
  by (cases "js_or (displayName u) (Str ''N/A'')"; cases "email u")
     (simp_all add: textContent_def UserPage_def header_section_def user_details_def
        log_out_button_def)

lemma includes_shown_display_name:
  assumes "\<not> loading s" and "user s = Some u"
  shows "includes_text (UserPage s) (shown (js_or (displayName u) (Str ''N/A'')))"
  unfolding includes_text_def textContent_UserPage [OF assms]
  by (metis sublist_appendI append.assoc)

text \<open>
  C3. With \<open>loading = true\<close>, whatever the user value, the render output is the loading
  placeholder alone: one \<open>div\<close> whose only child is the placeholder text. The render
  is a function of the session only; its output binds no handler, so nothing else can
  be triggered from it.
\<close>

theorem loading_renders_only_placeholder:
  assumes "loading s"
  shows "UserPage s = Element ''div'' [] [Text ''Loading user data...'']
       \<and> subnodes (UserPage s)
           = [Element ''div'' [] [Text ''Loading user data...''], Text ''Loading user data...'']
       \<and> textContent (UserPage s) = ''Loading user data...''
       \<and> handlers (UserPage s) = []"
  using assms by (simp add: UserPage_loading textContent_def)

theorem loading_renders_only_placeholder_witness:
  "UserPage \<lparr>user = Some \<lparr>email = Str ''a@b.com'', displayName = Str ''Ada''\<rparr>, loading = True\<rparr>
     = Element ''div'' [] [Text ''Loading user data...'']
   \<and> UserPage \<lparr>user = None, loading = True\<rparr>
     = Element ''div'' [] [Text ''Loading user data...'']
   \<and> handlers (UserPage \<lparr>user = None, loading = True\<rparr>) = []"
  using loading_renders_only_placeholder
          [of "\<lparr>user = Some \<lparr>email = Str ''a@b.com'', displayName = Str ''Ada''\<rparr>, loading = True\<rparr>"]
        loading_renders_only_placeholder [of "\<lparr>user = None, loading = True\<rparr>"]
  by simp

text \<open>
  C4. With \<open>loading = false\<close> and a user present: a display name that is present is
  included in the render output, and when it is non-empty it is the value of the
  display-name line (and \<open>N/A\<close> is not, unless it is the name itself); when the display
  name is absent (\<open>undefined\<close>) the value of that line is the literal \<open>N/A\<close>. For the
  user \<open>{email: "a@b.com", displayName: "Ada"}\<close> the output includes \<open>Ada\<close> and
  does not include \<open>N/A\<close>.
\<close>

theorem display_name_or_fallback:
  assumes "\<not> loading s" and "user s = Some u"
  shows "(displayName u = Str d \<longrightarrow> includes_text (UserPage s) d)
       \<and> (displayName u = Str d \<and> d \<noteq> [] \<longrightarrow>
            labelled_line ''Display Name:'' d \<in> set (subnodes (UserPage s)))
       \<and> (displayName u = Str d \<and> d \<noteq> [] \<and> d \<noteq> ''N/A'' \<longrightarrow>
            labelled_line ''Display Name:'' ''N/A'' \<notin> set (subnodes (UserPage s)))
       \<and> (displayName u = Undefined \<longrightarrow>
            labelled_line ''Display Name:'' ''N/A'' \<in> set (subnodes (UserPage s))
            \<and> includes_text (UserPage s) ''N/A'')
       \<and> (email u = Str ''a@b.com'' \<and> displayName u = Str ''Ada'' \<longrightarrow>
            includes_text (UserPage s) ''Ada'' \<and> \<not> includes_text (UserPage s) ''N/A'')"
proof -
  note line = display_line_in_page [OF assms]
  note incl = includes_shown_display_name [OF assms]
  have a: "displayName u = Str d \<longrightarrow> includes_text (UserPage s) d"
  proof (cases "d = []")
    case True
    then show ?thesis by (simp add: includes_text_def)
  next
    case False
    then show ?thesis using incl by (auto simp add: js_or_def)
  qed
  have b: "displayName u = Str d \<and> d \<noteq> [] \<longrightarrow>
      labelled_line ''Display Name:'' d \<in> set (subnodes (UserPage s))"
    by (simp add: line js_or_def)
  have c: "displayName u = Str d \<and> d \<noteq> [] \<and> d \<noteq> ''N/A'' \<longrightarrow>
      labelled_line ''Display Name:'' ''N/A'' \<notin> set (subnodes (UserPage s))"
    by (auto simp add: line js_or_def)
  have d: "displayName u = Undefined \<longrightarrow>
      labelled_line ''Display Name:'' ''N/A'' \<in> set (subnodes (UserPage s))
      \<and> includes_text (UserPage s) ''N/A''"
    using incl by (auto simp add: line js_or_def)
  have e: "email u = Str ''a@b.com'' \<and> displayName u = Str ''Ada'' \<longrightarrow>
      includes_text (UserPage s) ''Ada'' \<and> \<not> includes_text (UserPage s) ''N/A''"
  proof (intro impI conjI)
    assume h: "email u = Str ''a@b.com'' \<and> displayName u = Str ''Ada''"
    then show "includes_text (UserPage s) ''Ada''" using incl by (simp add: js_or_def)
    from h have "textContent (UserPage s)
        = ''DiascoreYou are successfully logged in as:Email: a@b.comDisplay Name: Ada ''"
      by (simp add: textContent_UserPage [OF assms] js_or_def)
    then show "\<not> includes_text (UserPage s) ''N/A''"
      by (simp add: includes_text_def sublist_Cons_right)
  qed
  from a b c d e show ?thesis by blast
qed

theorem display_name_or_fallback_witness:
  "includes_text
     (UserPage \<lparr>user = Some \<lparr>email = Str ''a@b.com'', displayName = Str ''Ada''\<rparr>,
                loading = False\<rparr>) ''Ada''
   \<and> \<not> includes_text
     (UserPage \<lparr>user = Some \<lparr>email = Str ''a@b.com'', displayName = Str ''Ada''\<rparr>,
                loading = False\<rparr>) ''N/A''
   \<and> includes_text
     (UserPage \<lparr>user = Some \<lparr>email = Str ''a@b.com'', displayName = Undefined\<rparr>,
                loading = False\<rparr>) ''N/A''"
  using display_name_or_fallback
          [of "\<lparr>user = Some \<lparr>email = Str ''a@b.com'', displayName = Str ''Ada''\<rparr>,
                loading = False\<rparr>"
              "\<lparr>email = Str ''a@b.com'', displayName = Str ''Ada''\<rparr>" "''Ada''"]
        display_name_or_fallback
          [of "\<lparr>user = Some \<lparr>email = Str ''a@b.com'', displayName = Undefined\<rparr>,
                loading = False\<rparr>"
              "\<lparr>email = Str ''a@b.com'', displayName = Undefined\<rparr>" "''Ada''"]
  by simp


text \<open>
  C7. With \<open>loading = false\<close> and no user, the first child of the body is the
  paragraph with the loading placeholder text; and with \<open>loading = false\<close>, user or
  no user, the body ends with the block that holds the sign-out control, a button
  labelled \<open>Log Out\<close> whose \<open>onClick\<close> is the sign-out handler.
\<close>

theorem body_placeholder_and_sign_out_control:
  assumes "\<not> loading s"
  shows "(user s = None \<longrightarrow>
            hd (body (UserPage s)) = Element ''p'' [] [Text ''Loading user data...''])
       \<and> length (body (UserPage s)) = 2
       \<and> last (body (UserPage s))
           = Element ''div'' [(''className'', PString ''flex gap-4 mt-40 mx-44'')] [log_out_button]
       \<and> log_out_button \<in> set (concat (map subnodes (body (UserPage s))))
       \<and> log_out_button
           = Element ''GreenCoverButton''
               [(''text'', PString ''Log Out''), (''defaultColor'', PString ''black''),
                (''onClick'', PHandler HandleSignOut)] []
       \<and> handlers log_out_button = [HandleSignOut]"
proof -
  note b = body_UserPage [OF assms]
  have p: "user s = None \<longrightarrow>
      hd (body (UserPage s)) = Element ''p'' [] [Text ''Loading user data...'']"
    by (simp add: b)
  have l: "length (body (UserPage s)) = 2" by (simp add: b)
  have c: "last (body (UserPage s))
      = Element ''div'' [(''className'', PString ''flex gap-4 mt-40 mx-44'')] [log_out_button]"
    by (simp add: b)
  have m: "log_out_button \<in> set (concat (map subnodes (body (UserPage s))))"
    by (simp add: b subnodes_log_out_button)
  have d: "log_out_button
      = Element ''GreenCoverButton''
          [(''text'', PString ''Log Out''), (''defaultColor'', PString ''black''),
           (''onClick'', PHandler HandleSignOut)] []"
    by (simp add: log_out_button_def)
  have h: "handlers log_out_button = [HandleSignOut]"
    by (simp add: log_out_button_def)
  from p l c m d h show ?thesis by blast
qed

theorem body_placeholder_and_sign_out_control_witness:
  "body (UserPage \<lparr>user = None, loading = False\<rparr>)
     = [Element ''p'' [] [Text ''Loading user data...''],
        Element ''div'' [(''className'', PString ''flex gap-4 mt-40 mx-44'')] [log_out_button]]
   \<and> log_out_button \<in> set (concat (map subnodes
        (body (UserPage \<lparr>user = Some \<lparr>email = Str ''a@b.com'', displayName = Str ''Ada''\<rparr>,
                          loading = False\<rparr>))))"
proof -
  let ?s = "\<lparr>user = None, loading = False\<rparr>"
  let ?t = "\<lparr>user = Some \<lparr>email = Str ''a@b.com'', displayName = Str ''Ada''\<rparr>,
             loading = False\<rparr>"
  from body_placeholder_and_sign_out_control [of ?s]
  have h: "hd (body (UserPage ?s)) = Element ''p'' [] [Text ''Loading user data...'']"
    and n: "length (body (UserPage ?s)) = 2"
    and l: "last (body (UserPage ?s))
      = Element ''div'' [(''className'', PString ''flex gap-4 mt-40 mx-44'')] [log_out_button]"
    by simp_all
  from n obtain x y where xy: "body (UserPage ?s) = [x, y]"
    by (cases "body (UserPage ?s)"; cases "tl (body (UserPage ?s))") auto
  with h l have "body (UserPage ?s)
     = [Element ''p'' [] [Text ''Loading user data...''],
        Element ''div'' [(''className'', PString ''flex gap-4 mt-40 mx-44'')] [log_out_button]]"
    by simp
  moreover from body_placeholder_and_sign_out_control [of ?t]
  have "log_out_button \<in> set (concat (map subnodes (body (UserPage ?t))))"
    by simp
  ultimately show ?thesis by blast
qed

text \<open>
  C9. With \<open>loading = false\<close> and a user whose display name is the empty string
  (present, but empty), the value of the display-name line is the fallback \<open>N/A\<close>, not
  the empty name: the fallback is taken for every falsy display name (\<open>undefined\<close>,
  \<open>null\<close> and the empty string), not only for an absent one.
\<close>

theorem empty_display_name_falls_back:
  assumes "\<not> loading s" and "user s = Some u"
  shows "(displayName u = Str [] \<longrightarrow>
            labelled_line ''Display Name:'' ''N/A'' \<in> set (subnodes (UserPage s))
            \<and> labelled_line ''Display Name:'' [] \<notin> set (subnodes (UserPage s))
            \<and> includes_text (UserPage s) ''N/A'')
       \<and> (\<not> truthy (displayName u) \<longrightarrow>
            labelled_line ''Display Name:'' ''N/A'' \<in> set (subnodes (UserPage s))
            \<and> includes_text (UserPage s) ''N/A'')
       \<and> \<not> truthy (Str []) \<and> \<not> truthy Undefined \<and> \<not> truthy Null"
proof -
  note line = display_line_in_page [OF assms]
  note incl = includes_shown_display_name [OF assms]
  have f: "\<not> truthy (displayName u) \<longrightarrow>
      labelled_line ''Display Name:'' ''N/A'' \<in> set (subnodes (UserPage s))
      \<and> includes_text (UserPage s) ''N/A''"
    using incl by (auto simp add: line js_or_def)
  have e: "displayName u = Str [] \<longrightarrow>
      labelled_line ''Display Name:'' ''N/A'' \<in> set (subnodes (UserPage s))
      \<and> labelled_line ''Display Name:'' [] \<notin> set (subnodes (UserPage s))
      \<and> includes_text (UserPage s) ''N/A''"
    using incl by (auto simp add: line js_or_def)
  from e f show ?thesis by simp
qed

theorem empty_display_name_falls_back_witness:
  "labelled_line ''Display Name:'' ''N/A''
     \<in> set (subnodes (UserPage \<lparr>user = Some \<lparr>email = Str ''a@b.com'', displayName = Str []\<rparr>,
                                   loading = False\<rparr>))
   \<and> labelled_line ''Display Name:'' []
     \<notin> set (subnodes (UserPage \<lparr>user = Some \<lparr>email = Str ''a@b.com'', displayName = Str []\<rparr>,
                                   loading = False\<rparr>))
   \<and> includes_text (UserPage \<lparr>user = Some \<lparr>email = Str ''a@b.com'', displayName = Str []\<rparr>,
                                loading = False\<rparr>) ''N/A''"
  using empty_display_name_falls_back
          [of "\<lparr>user = Some \<lparr>email = Str ''a@b.com'', displayName = Str []\<rparr>, loading = False\<rparr>"
              "\<lparr>email = Str ''a@b.com'', displayName = Str []\<rparr>"]
  by simp

text \<open>
  C10. The placeholder rendered when \<open>loading = true\<close> and the fallback rendered when
  \<open>loading = false\<close> and no user is present carry the same literal text,
  \<open>Loading user data...\<close>: the text does not tell the two conditions apart.
\<close>

theorem same_placeholder_text:
  assumes "loading s" and "\<not> loading s'" and "user s' = None"
  shows "UserPage s = Element ''div'' [] [Text ''Loading user data...'']
       \<and> hd (body (UserPage s')) = Element ''p'' [] [Text ''Loading user data...'']
       \<and> texts (UserPage s) = [''Loading user data...'']
       \<and> texts (hd (body (UserPage s'))) = [''Loading user data...'']
       \<and> texts (hd (body (UserPage s'))) = texts (UserPage s)"
  using assms by (simp add: UserPage_loading body_UserPage)

theorem same_placeholder_text_witness:
  "texts (UserPage \<lparr>user = None, loading = True\<rparr>) = [''Loading user data...'']
   \<and> texts (hd (body (UserPage \<lparr>user = None, loading = False\<rparr>))) = [''Loading user data...'']"
  using same_placeholder_text [of "\<lparr>user = None, loading = True\<rparr>" "\<lparr>user = None, loading = False\<rparr>"]
  by simp

section \<open>Properties of the sign-out action\<close>

lemma handleSignOut_cases:
  "handleSignOut en w =
    (case signOut_result en of
       Returns \<Rightarrow>
         (case navigate_throws en of
            None \<Rightarrow>
              (Returns, w\<lparr>trace := trace w
                 @ [SignOutCalled Auth, SignOutResolved, NavigateCalled ''/home'']\<rparr>)
          | Some e \<Rightarrow>
              (Returns, w\<lparr>trace := trace w
                 @ [SignOutCalled Auth, SignOutResolved, NavigateCalled ''/home'',
                    ConsoleErrorCalled ''Error signing out:'' e]\<rparr>))
     | Throws e \<Rightarrow>
         (Returns, w\<lparr>trace := trace w
            @ [SignOutCalled Auth, SignOutRejected e,
               ConsoleErrorCalled ''Error signing out:'' e]\<rparr>)
     | Pends \<Rightarrow> (Pends, w\<lparr>trace := trace w @ [SignOutCalled Auth]\<rparr>))"
  by (simp add: handleSignOut_def try_block_def await_signOut_def navigate_def console_error_def
      emit_def split: outcome.splits option.splits)

lemma invocation_cases:
  "invocation en w =
    (case signOut_result en of
       Returns \<Rightarrow>
         (case navigate_throws en of
            None \<Rightarrow> [SignOutCalled Auth, SignOutResolved, NavigateCalled ''/home'']
          | Some e \<Rightarrow>
              [SignOutCalled Auth, SignOutResolved, NavigateCalled ''/home'',
               ConsoleErrorCalled ''Error signing out:'' e])
     | Throws e \<Rightarrow>
         [SignOutCalled Auth, SignOutRejected e, ConsoleErrorCalled ''Error signing out:'' e]
     | Pends \<Rightarrow> [SignOutCalled Auth])"
  by (simp add: invocation_def handleSignOut_cases split: outcome.splits option.splits)

lemma trace_handleSignOut:
  "trace (snd (handleSignOut en w)) = trace w @ invocation en w"
  by (simp add: invocation_cases handleSignOut_cases split: outcome.splits option.splits)

lemma session_handleSignOut:
  "session (snd (handleSignOut en w)) = session w"
  by (simp add: handleSignOut_cases split: outcome.splits option.splits)

text \<open>
  C1. When the sign-out call rejects, an invocation of the handler makes no navigation
  call, writes exactly one diagnostic log entry (the message and the error), and
  returns normally: the error does not leave the handler. The session the panel
  renders is as before, so the panel renders what it rendered.
\<close>

theorem sign_out_rejected_logged_not_rethrown:
  assumes "signOut_result en = Throws e"
  shows "navigation_calls (invocation en w) = []
       \<and> log_entries (invocation en w) = [(''Error signing out:'', e)]
       \<and> length (log_entries (invocation en w)) = 1
       \<and> fst (handleSignOut en w) = Returns
       \<and> invocation en w
           = [SignOutCalled Auth, SignOutRejected e, ConsoleErrorCalled ''Error signing out:'' e]
       \<and> trace (snd (handleSignOut en w)) = trace w @ invocation en w
       \<and> session (snd (handleSignOut en w)) = session w
       \<and> UserPage (session (snd (handleSignOut en w))) = UserPage (session w)"
proof -
  have i: "invocation en w
      = [SignOutCalled Auth, SignOutRejected e, ConsoleErrorCalled ''Error signing out:'' e]"
    using assms by (simp add: invocation_cases)
  have r: "fst (handleSignOut en w) = Returns"
    using assms by (simp add: handleSignOut_cases)
  have n: "navigation_calls (invocation en w) = []"
    by (simp add: i navigation_calls_def)
  have l: "log_entries (invocation en w) = [(''Error signing out:'', e)]"
    by (simp add: i log_entries_def)
  from i r n l show ?thesis
    by (simp add: trace_handleSignOut session_handleSignOut)
qed

theorem sign_out_rejected_logged_not_rethrown_witness:
  "navigation_calls
     (invocation \<lparr>signOut_result = Throws (Error ''network''), navigate_throws = None\<rparr>
        \<lparr>session = \<lparr>user = None, loading = False\<rparr>, trace = []\<rparr>) = []
   \<and> log_entries
     (invocation \<lparr>signOut_result = Throws (Error ''network''), navigate_throws = None\<rparr>
        \<lparr>session = \<lparr>user = None, loading = False\<rparr>, trace = []\<rparr>)
       = [(''Error signing out:'', Error ''network'')]
   \<and> fst (handleSignOut \<lparr>signOut_result = Throws (Error ''network''), navigate_throws = None\<rparr>
        \<lparr>session = \<lparr>user = None, loading = False\<rparr>, trace = []\<rparr>) = Returns"
proof -
  let ?en = "\<lparr>signOut_result = Throws (Error ''network''), navigate_throws = None\<rparr>"
  have h: "signOut_result ?en = Throws (Error ''network'')" by simp
  from sign_out_rejected_logged_not_rethrown
         [OF h, of "\<lparr>session = \<lparr>user = None, loading = False\<rparr>, trace = []\<rparr>"]
  show ?thesis by blast
qed

text \<open>
  C2. When the sign-out call resolves, an invocation of the handler makes exactly one
  navigation call, with the path \<open>/home\<close>, and the call comes after the resolution:
  the invocation starts with the sign-out call, its resolution, and the navigation, in
  this order, whether \<open>navigate\<close> then returns or throws. When the sign-out call does
  not resolve (it rejects or never settles) there is no navigation call.
\<close>

theorem sign_out_resolved_navigates_home:
  "(signOut_result en = Returns \<longrightarrow>
       navigation_calls (invocation en w) = [''/home'']
     \<and> take 3 (invocation en w) = [SignOutCalled Auth, SignOutResolved, NavigateCalled ''/home'']
     \<and> takeWhile (\<lambda>ev. ev \<noteq> NavigateCalled ''/home'') (invocation en w)
         = [SignOutCalled Auth, SignOutResolved]
     \<and> fst (handleSignOut en w) = Returns)
   \<and> (signOut_result en \<noteq> Returns \<longrightarrow> navigation_calls (invocation en w) = [])"
  by (cases "signOut_result en"; cases "navigate_throws en")
     (simp_all add: invocation_cases handleSignOut_cases navigation_calls_def)

theorem sign_out_resolved_navigates_home_witness:
  "navigation_calls
     (invocation \<lparr>signOut_result = Returns, navigate_throws = None\<rparr>
        \<lparr>session = \<lparr>user = None, loading = False\<rparr>, trace = []\<rparr>) = [''/home'']
   \<and> navigation_calls
     (invocation \<lparr>signOut_result = Returns, navigate_throws = Some (Error ''router'')\<rparr>
        \<lparr>session = \<lparr>user = None, loading = False\<rparr>, trace = []\<rparr>) = [''/home'']
   \<and> navigation_calls
     (invocation \<lparr>signOut_result = Pends, navigate_throws = None\<rparr>
        \<lparr>session = \<lparr>user = None, loading = False\<rparr>, trace = []\<rparr>) = []"
  using sign_out_resolved_navigates_home
          [of "\<lparr>signOut_result = Returns, navigate_throws = None\<rparr>"
              "\<lparr>session = \<lparr>user = None, loading = False\<rparr>, trace = []\<rparr>"]
        sign_out_resolved_navigates_home
          [of "\<lparr>signOut_result = Returns, navigate_throws = Some (Error ''router'')\<rparr>"
              "\<lparr>session = \<lparr>user = None, loading = False\<rparr>, trace = []\<rparr>"]
        sign_out_resolved_navigates_home
          [of "\<lparr>signOut_result = Pends, navigate_throws = None\<rparr>"
              "\<lparr>session = \<lparr>user = None, loading = False\<rparr>, trace = []\<rparr>"]
  by simp

end
